theory Spec2Isabelle
  imports Main
begin

section \<open>JavaScript containers\<close>

text \<open>
  A JavaScript \<^verbatim>\<open>Map\<close> iterates in insertion order, \<^verbatim>\<open>set\<close> on a key that is present
  replaces the value where it stands, \<^verbatim>\<open>set\<close> on a new key appends, and \<^verbatim>\<open>delete\<close>
  removes the entry. It is modelled as an association list. A \<^verbatim>\<open>Set\<close> is a list
  without repetitions, in insertion order.
\<close>

type_synonym ('k, 'v) jsmap = "('k \<times> 'v) list"

definition jsmap_get :: "('k, 'v) jsmap \<Rightarrow> 'k \<Rightarrow> 'v option" where
  "jsmap_get m k = map_of m k"

definition jsmap_has :: "('k, 'v) jsmap \<Rightarrow> 'k \<Rightarrow> bool" where
  "jsmap_has m k = (jsmap_get m k \<noteq> None)"

fun jsmap_set :: "('k, 'v) jsmap \<Rightarrow> 'k \<Rightarrow> 'v \<Rightarrow> ('k, 'v) jsmap" where
  "jsmap_set [] k v = [(k, v)]"
| "jsmap_set ((k', v') # m) k v =
     (if k' = k then (k, v) # m else (k', v') # jsmap_set m k v)"

definition jsmap_delete :: "('k, 'v) jsmap \<Rightarrow> 'k \<Rightarrow> ('k, 'v) jsmap" where
  "jsmap_delete m k = filter (\<lambda>kv. fst kv \<noteq> k) m"

definition jsmap_values :: "('k, 'v) jsmap \<Rightarrow> 'v list" where
  "jsmap_values m = map snd m"

type_synonym 'a jsset = "'a list"

definition jsset_add :: "'a jsset \<Rightarrow> 'a \<Rightarrow> 'a jsset" where
  "jsset_add s x = (if x \<in> set s then s else s @ [x])"

definition jsset_delete :: "'a jsset \<Rightarrow> 'a \<Rightarrow> 'a jsset" where
  "jsset_delete s x = filter (\<lambda>y. y \<noteq> x) s"


section \<open>The directory store (class MemStorage)\<close>

text \<open>
  Ids are the integer-valued numbers the two counters hand out; the counters are JavaScript
  numbers, which count exactly up to \<open>2 ^ 53\<close>, and are taken as integers. Timestamps
  (\<^verbatim>\<open>new Date()\<close>) are milliseconds, read from the clock by the caller and passed in;
  the result of \<^verbatim>\<open>hashPassword\<close> (a random salt and scrypt) is passed in likewise.
  Each operation runs to its end before the next one starts. The record types are
  declared in \<^verbatim>\<open>@shared/schema\<close>; their fields are those the store reads and writes.
\<close>

record User =
  user_id :: int
  username :: string
  password :: string
  isAdmin :: bool
  status :: string
  publicKey :: "string option"
  lastSeen :: int

record InsertUser =
  ins_username :: string
  ins_password :: string

record Message =
  msg_id :: int
  senderId :: int
  receiverId :: int
  content :: string
  timestamp :: int

record InsertMessage =
  ins_senderId :: int
  ins_receiverId :: int
  ins_content :: string

record MemStorage =
  users :: "(int, User) jsmap"
  messages :: "(int, Message) jsmap"
  contacts :: "(int, int jsset) jsmap"
  currentId :: int
  currentMessageId :: int

text \<open>The fields as the constructor initialises them, before it registers the two
  default administrators through \<open>createUser\<close>.\<close>

definition empty_storage :: MemStorage where
  "empty_storage =
     \<lparr>users = [], messages = [], contacts = [], currentId = 1, currentMessageId = 1\<rparr>"

definition getUser :: "MemStorage \<Rightarrow> int \<Rightarrow> User option" where
  "getUser s i = jsmap_get (users s) i"

definition getUserByUsername :: "MemStorage \<Rightarrow> string \<Rightarrow> User option" where
  "getUserByUsername s name = find (\<lambda>user. username user = name) (jsmap_values (users s))"

text \<open>\<open>createUser\<close> has no failing path: it takes the next id, builds the record and
  stores it, together with an empty contact set.\<close>

definition createUser :: "MemStorage \<Rightarrow> InsertUser \<Rightarrow> string \<Rightarrow> int \<Rightarrow> User \<times> MemStorage" where
  "createUser s insertUser hashedPassword now =
     (let i = currentId s;
          user = \<lparr>user_id = i, username = ins_username insertUser, password = hashedPassword,
                  isAdmin = False, status = ''offline'', publicKey = None, lastSeen = now\<rparr>
      in (user, s\<lparr>currentId := i + 1,
                  users := jsmap_set (users s) i user,
                  contacts := jsmap_set (contacts s) i []\<rparr>))"

definition getAllUsers :: "MemStorage \<Rightarrow> User list" where
  "getAllUsers s = jsmap_values (users s)"

datatype error = Error string

definition updateUserStatus ::
  "MemStorage \<Rightarrow> int \<Rightarrow> string \<Rightarrow> int \<Rightarrow> error + User \<times> MemStorage" where
  "updateUserStatus s i st now =
     (case getUser s i of
        None \<Rightarrow> Inl (Error ''User not found'')
      | Some user \<Rightarrow>
          (let updatedUser = user\<lparr>status := st, lastSeen := now\<rparr>
           in Inr (updatedUser, s\<lparr>users := jsmap_set (users s) i updatedUser\<rparr>)))"




definition banUser :: "MemStorage \<Rightarrow> int \<Rightarrow> MemStorage" where
  "banUser s i =
     s\<lparr>users := jsmap_delete (users s) i,
       contacts := map (\<lambda>kc. (fst kc, jsset_delete (snd kc) i)) (jsmap_delete (contacts s) i)\<rparr>"

text \<open>The filter of \<open>getMessages\<close>: the message travels between the two users, in
  either direction.\<close>

definition between :: "int \<Rightarrow> int \<Rightarrow> Message \<Rightarrow> bool" where
  "between userId1 userId2 msg =
     ((senderId msg = userId1 \<and> receiverId msg = userId2) \<or>
      (senderId msg = userId2 \<and> receiverId msg = userId1))"

definition getMessages :: "MemStorage \<Rightarrow> int \<Rightarrow> int \<Rightarrow> Message list" where
  "getMessages s userId1 userId2 = filter (between userId1 userId2) (jsmap_values (messages s))"

definition createMessage :: "MemStorage \<Rightarrow> InsertMessage \<Rightarrow> int \<Rightarrow> Message \<times> MemStorage" where
  "createMessage s message now =
     (let i = currentMessageId s;
          newMessage = \<lparr>msg_id = i, senderId = ins_senderId message,
                        receiverId = ins_receiverId message, content = ins_content message,
                        timestamp = now\<rparr>
      in (newMessage, s\<lparr>currentMessageId := i + 1,
                        messages := jsmap_set (messages s) i newMessage\<rparr>))"

definition deleteMessage :: "MemStorage \<Rightarrow> int \<Rightarrow> MemStorage" where
  "deleteMessage s i = s\<lparr>messages := jsmap_delete (messages s) i\<rparr>"

definition getContacts :: "MemStorage \<Rightarrow> int \<Rightarrow> User list" where
  "getContacts s userId =
     (let contactIds = (case jsmap_get (contacts s) userId of None \<Rightarrow> [] | Some c \<Rightarrow> c)
      in List.map_filter (\<lambda>i. jsmap_get (users s) i) contactIds)"

definition addContact :: "MemStorage \<Rightarrow> int \<Rightarrow> int \<Rightarrow> MemStorage" where
  "addContact s userId contactId =
     (let cs = (if \<not> jsmap_has (contacts s) userId
                then jsmap_set (contacts s) userId [] else contacts s)
      in s\<lparr>contacts := jsmap_set cs userId
             (jsset_add (case jsmap_get cs userId of None \<Rightarrow> [] | Some c \<Rightarrow> c) contactId)\<rparr>)"



section \<open>Registration (POST /api/register)\<close>

text \<open>
  The request body after \<^verbatim>\<open>insertUserSchema.parse\<close>: \<open>None\<close> when the parse throws.
  The session that \<^verbatim>\<open>req.login\<close> opens is not part of the store and is left out.
\<close>

datatype body = Message_json string | User_json User

datatype response = Status_json nat body

definition api_register ::
  "MemStorage \<Rightarrow> InsertUser option \<Rightarrow> string \<Rightarrow> int \<Rightarrow> response \<times> MemStorage" where
  "api_register s parsed hashedPassword now =
     (case parsed of
        None \<Rightarrow> (Status_json 400 (Message_json ''Invalid request''), s)
      | Some p \<Rightarrow>
          (case getUserByUsername s (ins_username p) of
             Some existingUser \<Rightarrow>
               (Status_json 400 (Message_json ''Username already exists''), s)
           | None \<Rightarrow>
               (let (user, s') = createUser s p hashedPassword now
                in (Status_json 201 (User_json user), s'))))"


section \<open>The realtime relay (socket.io handlers of registerRoutes)\<close>

text \<open>
  \<^verbatim>\<open>socket.data.userId\<close> is the result of \<^verbatim>\<open>Number(userId)\<close> on a query string, so it
  can be any number: \<^verbatim>\<open>NaN\<close>, which \<^verbatim>\<open>===\<close> finds equal to nothing, an integer, a
  number that is not an integer, or an infinity. \<open>Frac m k\<close> is \<open>m / 2 ^ k\<close> for an odd
  \<open>m\<close> and \<open>0 < k\<close>; every finite double that is not an integer is one of these. The
  two zeros are one \<open>Num 0\<close>: \<^verbatim>\<open>===\<close> and the truth test do not tell them apart. Event
  payloads arrive as JSON, which has no \<^verbatim>\<open>NaN\<close>; their ids are integers.
\<close>

datatype jsnum = NaN | Num int | Frac int nat | PosInfinity | NegInfinity

text \<open>
  \<^verbatim>\<open>Number\<close> applied to a string (StringToNumber of ECMAScript). White space and
  line terminators around the literal are dropped; a string is a list of bytes in UTF-8,
  so those beyond ASCII (U+00A0, U+1680, U+2000 to U+200A, U+2028, U+2029, U+202F,
  U+205F, U+3000, U+FEFF) are sequences of two or three bytes.
\<close>

definition js_whitespace :: "string list" where
  "js_whitespace =
     [[CHR 0x09], [CHR 0x0A], [CHR 0x0B], [CHR 0x0C], [CHR 0x0D], [CHR 0x20],
      [CHR 0xC2, CHR 0xA0],
      [CHR 0xE1, CHR 0x9A, CHR 0x80],
      [CHR 0xE2, CHR 0x80, CHR 0x80], [CHR 0xE2, CHR 0x80, CHR 0x81],
      [CHR 0xE2, CHR 0x80, CHR 0x82], [CHR 0xE2, CHR 0x80, CHR 0x83],
      [CHR 0xE2, CHR 0x80, CHR 0x84], [CHR 0xE2, CHR 0x80, CHR 0x85],
      [CHR 0xE2, CHR 0x80, CHR 0x86], [CHR 0xE2, CHR 0x80, CHR 0x87],
      [CHR 0xE2, CHR 0x80, CHR 0x88], [CHR 0xE2, CHR 0x80, CHR 0x89],
      [CHR 0xE2, CHR 0x80, CHR 0x8A],
      [CHR 0xE2, CHR 0x80, CHR 0xA8], [CHR 0xE2, CHR 0x80, CHR 0xA9],
      [CHR 0xE2, CHR 0x80, CHR 0xAF],
      [CHR 0xE2, CHR 0x81, CHR 0x9F],
      [CHR 0xE3, CHR 0x80, CHR 0x80],
      [CHR 0xEF, CHR 0xBB, CHR 0xBF]]"

definition ws_len :: "string list \<Rightarrow> string \<Rightarrow> nat" where
  "ws_len ws s = (case find (\<lambda>w. w \<noteq> [] \<and> take (length w) s = w) ws of
                    None \<Rightarrow> 0 | Some w \<Rightarrow> length w)"

lemma ws_len_Nil: "ws_len ws [] = 0"
  by (auto simp: ws_len_def split: option.splits dest: find_Some_iff [THEN iffD1])

function trim_start :: "string list \<Rightarrow> string \<Rightarrow> string" where
  "trim_start ws s = (if ws_len ws s = 0 then s else trim_start ws (drop (ws_len ws s) s))"
  by pat_completeness auto
termination
proof (relation "measure (\<lambda>(ws, s). length s)")
  show "wf (measure (\<lambda>(ws, s). length s))" by simp
next
  fix ws :: "string list" and s :: string
  assume "ws_len ws s \<noteq> 0"
  moreover from this have "s \<noteq> []" using ws_len_Nil [of ws] by auto
  ultimately show "((ws, drop (ws_len ws s) s), (ws, s)) \<in> measure (\<lambda>(ws, s). length s)"
    by simp
qed

definition trim :: "string \<Rightarrow> string" where
  "trim s = rev (trim_start (map rev js_whitespace) (rev (trim_start js_whitespace s)))"

text \<open>The literal: nothing (0), a hexadecimal, octal or binary integer, or a decimal
  with an optional sign, fraction and exponent, or a signed \<open>Infinity\<close>. Everything else
  is \<^verbatim>\<open>NaN\<close>.\<close>

definition is_digit :: "char \<Rightarrow> bool" where
  "is_digit c = (c \<in> set ''0123456789'')"

definition digit_val :: "char \<Rightarrow> int" where
  "digit_val c = int (of_char c) - 48"

definition hex_val :: "char \<Rightarrow> int option" where
  "hex_val c =
     (if is_digit c then Some (digit_val c)
      else if c \<in> set ''abcdef'' then Some (int (of_char c) - 87)
      else if c \<in> set ''ABCDEF'' then Some (int (of_char c) - 55)
      else None)"

definition digits_in :: "int \<Rightarrow> string \<Rightarrow> bool" where
  "digits_in base s =
     (s \<noteq> [] \<and> list_all (\<lambda>c. case hex_val c of None \<Rightarrow> False | Some v \<Rightarrow> v < base) s)"

definition digits_value :: "int \<Rightarrow> string \<Rightarrow> int" where
  "digits_value base s = foldl (\<lambda>n c. base * n + (case hex_val c of None \<Rightarrow> 0 | Some v \<Rightarrow> v)) 0 s"

definition parse_non_decimal :: "string \<Rightarrow> int option" where
  "parse_non_decimal t =
     (case t of
        z # x # ds \<Rightarrow>
          (if z \<noteq> CHR ''0'' then None
           else if x \<in> set ''xX'' \<and> digits_in 16 ds then Some (digits_value 16 ds)
           else if x \<in> set ''oO'' \<and> digits_in 8 ds then Some (digits_value 8 ds)
           else if x \<in> set ''bB'' \<and> digits_in 2 ds then Some (digits_value 2 ds)
           else None)
      | _ \<Rightarrow> None)"

definition parse_exponent :: "string \<Rightarrow> int option" where
  "parse_exponent r =
     (case r of
        [] \<Rightarrow> Some 0
      | e # r1 \<Rightarrow>
          (if e \<in> set ''eE'' then
             (case r1 of
                [] \<Rightarrow> None
              | sg # r2 \<Rightarrow>
                  (if sg = CHR ''+'' then (if digits_in 10 r2 then Some (digits_value 10 r2) else None)
                   else if sg = CHR ''-'' then (if digits_in 10 r2 then Some (- digits_value 10 r2) else None)
                   else if digits_in 10 r1 then Some (digits_value 10 r1) else None))
           else None))"

definition parse_unsigned_decimal :: "string \<Rightarrow> (int \<times> int) option" where
  "parse_unsigned_decimal u =
     (let ds1 = takeWhile is_digit u;
          r1 = dropWhile is_digit u;
          ds2 = (case r1 of [] \<Rightarrow> [] | c # r \<Rightarrow> if c = CHR ''.'' then takeWhile is_digit r else []);
          r2 = (case r1 of [] \<Rightarrow> [] | c # r \<Rightarrow> if c = CHR ''.'' then dropWhile is_digit r else r1)
      in if ds1 = [] \<and> ds2 = [] then None
         else (case parse_exponent r2 of
                 None \<Rightarrow> None
               | Some ex \<Rightarrow> Some (digits_value 10 (ds1 @ ds2), ex - int (length ds2))))"

text \<open>
  The value of the literal, a quotient \<open>p / q\<close> of integers, is rounded to the nearest
  double, ties to the even significand: 53 bits of significand, the exponent of the last
  bit no less than \<open>-1074\<close>, and \<open>2 ^ 1024\<close> or more is infinite. All digits of the
  literal count, however many there are.
\<close>

function bit_length :: "int \<Rightarrow> nat" where
  "bit_length n = (if n \<le> 0 then 0 else Suc (bit_length (n div 2)))"
  by pat_completeness auto
termination
  by (relation "measure nat") auto

fun lowest_terms :: "int \<Rightarrow> nat \<Rightarrow> jsnum" where
  "lowest_terms m 0 = Num m"
| "lowest_terms m (Suc k) = (if even m then lowest_terms (m div 2) k else Frac m (Suc k))"

definition round_half_even :: "int \<Rightarrow> int \<Rightarrow> int" where
  "round_half_even num den =
     (let f = num div den; r = num mod den
      in if 2 * r < den then f else if den < 2 * r then f + 1
         else if even f then f else f + 1)"

definition to_double :: "bool \<Rightarrow> int \<Rightarrow> int \<Rightarrow> jsnum" where
  "to_double neg p q =
     (if p = 0 then Num 0
      else
        (let d = int (bit_length p) - int (bit_length q);
             e0 = (if (if 0 \<le> d then q * 2 ^ nat d \<le> p else q \<le> p * 2 ^ nat (- d)) then d else d - 1);
             e = max (e0 - 52) (- 1074);
             m = (if 0 \<le> e then round_half_even p (q * 2 ^ nat e)
                  else round_half_even (p * 2 ^ nat (- e)) q);
             sg = (if neg then - 1 else 1)
         in if 0 \<le> e then
              (if 2 ^ 1024 \<le> m * 2 ^ nat e then (if neg then NegInfinity else PosInfinity)
               else Num (sg * m * 2 ^ nat e))
            else lowest_terms (sg * m) (nat (- e))))"

definition Number_js :: "string \<Rightarrow> jsnum" where
  "Number_js str =
     (let t = trim str
      in if t = [] then Num 0
         else (case parse_non_decimal t of
                 Some n \<Rightarrow> to_double False n 1
               | None \<Rightarrow>
                   (let neg = (hd t = CHR ''-'');
                        u = (if hd t = CHR ''+'' \<or> hd t = CHR ''-'' then tl t else t)
                    in if u = ''Infinity'' then (if neg then NegInfinity else PosInfinity)
                       else (case parse_unsigned_decimal u of
                               None \<Rightarrow> NaN
                             | Some (m, k) \<Rightarrow>
                                 (if 0 \<le> k then to_double neg (m * 10 ^ nat k) 1
                                  else to_double neg m (10 ^ nat (- k)))))))"



text \<open>
  The handshake of a connection attempt. \<open>session_user\<close> is the identity that the passport
  session of the HTTP layer (\<^verbatim>\<open>setupAuth\<close>) resolves for the cookie the request carries,
  \<open>None\<close> without a login; it is there for the client to be described, and the middleware
  below does not read it. The query parameter is absent or one string.
\<close>

record handshake =
  auth_token :: "string option"
  query_userId :: "string option"
  session_user :: "int option"

record socket =
  socket_id :: nat
  handshake :: handshake
  data_userId :: "jsnum option"

definition io_use :: "socket \<Rightarrow> error + socket" where
  "io_use sock =
     (if auth_token (handshake sock) = Some ''session'' then
        (case query_userId (handshake sock) of
           Some userId \<Rightarrow>
             (if userId \<noteq> [] then Inr (sock\<lparr>data_userId := Some (Number_js userId)\<rparr>)
              else Inl (Error ''Authentication error''))
         | None \<Rightarrow> Inl (Error ''Authentication error''))
      else Inl (Error ''Authentication error''))"

text \<open>The room \<^verbatim>\<open>user_${userId}\<close>.\<close>

datatype room = User_room int

datatype payload =
    Error_message string
  | New_message Message
  | User_status_changed int string

text \<open>
  What a handler sends: \<^verbatim>\<open>socket.emit\<close> to one connection, \<^verbatim>\<open>io.emit\<close> to all,
  \<^verbatim>\<open>io.to(..).to(..).emit\<close> to the members of rooms. A refused connection gets the
  middleware's error; an \<^verbatim>\<open>async\<close> handler that throws outside a \<^verbatim>\<open>try\<close> leaves a
  rejected promise.
\<close>

datatype emission =
    Socket_emit nat payload
  | Io_emit payload
  | Io_to_emit "room list" payload
  | Connect_error error
  | Unhandled_rejection error

record server =
  storage :: MemStorage
  sockets :: "socket list"
  rooms :: "(nat \<times> room) jsset"
  next_socket_id :: nat

record ChatData =
  data_type :: string
  data_senderId :: int
  data_receiverId :: int
  data_content :: string

text \<open>
  The handlers call \<^verbatim>\<open>storage.createMessage\<close> inside \<^verbatim>\<open>try\<close> and handle its failure.
  \<open>createMessage\<close> of \<open>MemStorage\<close> cannot fail, so the handlers take the operation of
  the \<^verbatim>\<open>IStorage\<close> interface as an argument: a rejected promise is \<open>Inl\<close>, and leaves
  the store as it was.
\<close>

type_synonym createMessage_op = "MemStorage \<Rightarrow> InsertMessage \<Rightarrow> int \<Rightarrow> error + Message \<times> MemStorage"

definition storage_createMessage :: createMessage_op where
  "storage_createMessage s message now = Inr (createMessage s message now)"

definition join_handler :: "server \<Rightarrow> socket \<Rightarrow> int \<Rightarrow> int \<Rightarrow> server \<times> emission list" where
  "join_handler srv sock userId now =
     (if data_userId sock \<noteq> Some (Num userId)
      then (srv, [Socket_emit (socket_id sock) (Error_message ''Invalid user ID'')])
      else
        (let srv1 = srv\<lparr>rooms := jsset_add (rooms srv) (socket_id sock, User_room userId)\<rparr>
         in case updateUserStatus (storage srv1) userId ''online'' now of
              Inl e \<Rightarrow> (srv1, [Unhandled_rejection e])
            | Inr (user, st) \<Rightarrow>
                (srv1\<lparr>storage := st\<rparr>, [Io_emit (User_status_changed userId ''online'')])))"

definition chat_message_handler ::
  "createMessage_op \<Rightarrow> server \<Rightarrow> socket \<Rightarrow> ChatData \<Rightarrow> int \<Rightarrow> server \<times> emission list" where
  "chat_message_handler create srv sock dat now =
     (if data_userId sock \<noteq> Some (Num (data_senderId dat))
      then (srv, [Socket_emit (socket_id sock) (Error_message ''Unauthorized message sender'')])
      else
        (case create (storage srv)
                \<lparr>ins_senderId = data_senderId dat, ins_receiverId = data_receiverId dat,
                 ins_content = data_content dat\<rparr> now of
           Inl e \<Rightarrow>
             (srv, [Socket_emit (socket_id sock) (Error_message ''Failed to save message'')])
         | Inr (savedMessage, st) \<Rightarrow>
             (srv\<lparr>storage := st\<rparr>,
              [Io_to_emit [User_room (data_senderId dat), User_room (data_receiverId dat)]
                 (New_message savedMessage)])))"

text \<open>\<^verbatim>\<open>if (userId)\<close>: \<^verbatim>\<open>undefined\<close>, \<^verbatim>\<open>NaN\<close> and \<^verbatim>\<open>0\<close> are falsy. A number that is not
  an integer is truthy and is the key of no user, the keys being the integers the counter
  hands out, so \<open>updateUserStatus\<close> throws for it.\<close>

definition disconnect_handler :: "server \<Rightarrow> socket \<Rightarrow> int \<Rightarrow> server \<times> emission list" where
  "disconnect_handler srv sock now =
     (case data_userId sock of
        Some (Num userId) \<Rightarrow>
          (if userId \<noteq> 0 then
             (case updateUserStatus (storage srv) userId ''offline'' now of
                Inl e \<Rightarrow> (srv, [Unhandled_rejection e])
              | Inr (user, st) \<Rightarrow>
                  (srv\<lparr>storage := st\<rparr>, [Io_emit (User_status_changed userId ''offline'')]))
           else (srv, []))
      | Some (Frac m k) \<Rightarrow> (srv, [Unhandled_rejection (Error ''User not found'')])
      | Some PosInfinity \<Rightarrow> (srv, [Unhandled_rejection (Error ''User not found'')])
      | Some NegInfinity \<Rightarrow> (srv, [Unhandled_rejection (Error ''User not found'')])
      | _ \<Rightarrow> (srv, []))"

text \<open>
  The events the transport delivers, each with the clock reading at its arrival. A
  connection attempt gets a fresh socket id and passes the middleware; the other events
  reach the handlers of the connection they arrive on; a disconnecting socket has left
  the server's list and its rooms when its handler runs.
\<close>

datatype event =
    Connection handshake
  | Join nat int
  | Chat_message nat ChatData
  | Disconnect nat

definition find_socket :: "server \<Rightarrow> nat \<Rightarrow> socket option" where
  "find_socket srv sid = find (\<lambda>c. socket_id c = sid) (sockets srv)"

definition step :: "server \<Rightarrow> event \<Rightarrow> int \<Rightarrow> server \<times> emission list" where
  "step srv ev now =
     (case ev of
        Connection hs \<Rightarrow>
          (case io_use \<lparr>socket_id = next_socket_id srv, handshake = hs, data_userId = None\<rparr> of
             Inl e \<Rightarrow> (srv\<lparr>next_socket_id := Suc (next_socket_id srv)\<rparr>, [Connect_error e])
           | Inr sock \<Rightarrow>
               (srv\<lparr>sockets := sockets srv @ [sock],
                    next_socket_id := Suc (next_socket_id srv)\<rparr>, []))
      | Join sid userId \<Rightarrow>
          (case find_socket srv sid of
             None \<Rightarrow> (srv, [])
           | Some sock \<Rightarrow> join_handler srv sock userId now)
      | Chat_message sid dat \<Rightarrow>
          (case find_socket srv sid of
             None \<Rightarrow> (srv, [])
           | Some sock \<Rightarrow> chat_message_handler storage_createMessage srv sock dat now)
      | Disconnect sid \<Rightarrow>
          (case find_socket srv sid of
             None \<Rightarrow> (srv, [])
           | Some sock \<Rightarrow>
               disconnect_handler
                 (srv\<lparr>sockets := filter (\<lambda>c. socket_id c \<noteq> sid) (sockets srv),
                      rooms := filter (\<lambda>sr. fst sr \<noteq> sid) (rooms srv)\<rparr>) sock now))"

fun run :: "server \<Rightarrow> (event \<times> int) list \<Rightarrow> server \<times> emission list" where
  "run srv [] = (srv, [])"
| "run srv (e # es) =
     (let (srv1, out1) = step srv (fst e) (snd e);
          (srv2, out2) = run srv1 es
      in (srv2, out1 @ out2))"


section \<open>The secondary websocket path (handleWebSocketMessage)\<close>

text \<open>The test \<^verbatim>\<open>/^[A-Za-z0-9+/=]+$/\<close>: one character or more, each of the class.\<close>

definition encoded_char :: "char \<Rightarrow> bool" where
  "encoded_char c =
     (c \<in> set ''ABCDEFGHIJKLMNOPQRSTUVWXYZabcdefghijklmnopqrstuvwxyz0123456789+/='')"

definition matches_encoded :: "string \<Rightarrow> bool" where
  "matches_encoded str = (str \<noteq> [] \<and> list_all encoded_char str)"

datatype ws_out = Ws_send_error string | Broadcast_new_message Message

text \<open>\<open>parsed\<close> is the result of \<^verbatim>\<open>JSON.parse\<close>, \<open>None\<close> when it throws.\<close>

definition handleWebSocketMessage ::
  "createMessage_op \<Rightarrow> MemStorage \<Rightarrow> ChatData option \<Rightarrow> int \<Rightarrow> MemStorage \<times> ws_out list" where
  "handleWebSocketMessage create s parsed now =
     (case parsed of
        None \<Rightarrow> (s, [Ws_send_error ''Invalid message format''])
      | Some dat \<Rightarrow>
          (if data_type dat = ''chat'' then
             (if getUser s (data_senderId dat) = None \<or> getUser s (data_receiverId dat) = None
              then (s, [Ws_send_error ''Invalid sender or receiver''])
              else if \<not> matches_encoded (data_content dat)
              then (s, [Ws_send_error ''Message must be encrypted''])
              else
                (case create s
                        \<lparr>ins_senderId = data_senderId dat, ins_receiverId = data_receiverId dat,
                         ins_content = data_content dat\<rparr> now of
                   Inl e \<Rightarrow> (s, [Ws_send_error ''Failed to save message''])
                 | Inr (savedMessage, s') \<Rightarrow> (s', [Broadcast_new_message savedMessage])))
           else (s, [])))"


section \<open>Invariants, call sequences and example states\<close>


text \<open>Every stored message has an id below the counter, as in every state the
  constructor and the operations of the store lead to.\<close>

definition messages_fresh :: "MemStorage \<Rightarrow> bool" where
  "messages_fresh s = list_all (\<lambda>km. fst km < currentMessageId s) (messages s)"

text \<open>A sequence of \<open>createMessage\<close> calls, each with its clock reading; the result is
  the final store and the messages the calls returned, in call order.\<close>

fun createMessage_calls ::
  "MemStorage \<Rightarrow> (InsertMessage \<times> int) list \<Rightarrow> MemStorage \<times> Message list" where
  "createMessage_calls s [] = (s, [])"
| "createMessage_calls s (call # calls) =
     (let (msg, s1) = createMessage s (fst call) (snd call);
          (s2, msgs) = createMessage_calls s1 calls
      in (s2, msg # msgs))"





text \<open>The call a message came from: its three inserted fields and its timestamp.\<close>

definition call_of :: "Message \<Rightarrow> InsertMessage \<times> int" where
  "call_of m =
     (\<lparr>ins_senderId = senderId m, ins_receiverId = receiverId m, ins_content = content m\<rparr>,
      timestamp m)"

text \<open>A store with three registered users, alice (1), bob (2) and carol (3); alice has
  added bob and carol, carol has added bob.\<close>

definition three_users :: MemStorage where
  "three_users =
     snd (createUser (snd (createUser (snd (createUser empty_storage
       \<lparr>ins_username = ''alice'', ins_password = ''pw1''\<rparr> ''h1'' 1000))
       \<lparr>ins_username = ''bob'', ins_password = ''pw2''\<rparr> ''h2'' 2000))
       \<lparr>ins_username = ''carol'', ins_password = ''pw3''\<rparr> ''h3'' 3000)"

definition with_contacts :: MemStorage where
  "with_contacts = addContact (addContact (addContact three_users 1 2) 1 3) 3 2"

definition fresh_server :: server where
  "fresh_server = \<lparr>storage = three_users, sockets = [], rooms = [], next_socket_id = 0\<rparr>"

text \<open>A client logged in as bob (2) that claims to be alice (1) at the handshake.\<close>

definition impostor :: handshake where
  "impostor = \<lparr>auth_token = Some ''session'', query_userId = Some ''1'', session_user = Some 2\<rparr>"

text \<open>Alice, logged in, on one of her devices.\<close>

definition alice_device :: handshake where
  "alice_device = \<lparr>auth_token = Some ''session'', query_userId = Some ''1'', session_user = Some 1\<rparr>"

text \<open>Alice again, with her id spelled with a blank and an exponent.\<close>

definition spelled_device :: handshake where
  "spelled_device =
     \<lparr>auth_token = Some ''session'', query_userId = Some '' 1e0'', session_user = Some 1\<rparr>"

text \<open>Two calls between alice and bob, the clock set back between them.\<close>

definition clock_set_back :: "(InsertMessage \<times> int) list" where
  "clock_set_back =
     [(\<lparr>ins_senderId = 1, ins_receiverId = 2, ins_content = ''QUJDRA==''\<rparr>, 10),
      (\<lparr>ins_senderId = 2, ins_receiverId = 1, ins_content = ''Qg==''\<rparr>, 5)]"


text \<open>A store whose \<open>createMessage\<close> always fails.\<close>

definition failing_createMessage :: createMessage_op where
  "failing_createMessage s message now = Inl (Error ''store unavailable'')"

text \<open>Three calls: alice to bob, carol to alice, bob to alice.\<close>

definition conversation_calls :: "(InsertMessage \<times> int) list" where
  "conversation_calls =
     [(\<lparr>ins_senderId = 1, ins_receiverId = 2, ins_content = ''QUJDRA==''\<rparr>, 10),
      (\<lparr>ins_senderId = 3, ins_receiverId = 1, ins_content = ''eA==''\<rparr>, 20),
      (\<lparr>ins_senderId = 2, ins_receiverId = 1, ins_content = ''Qg==''\<rparr>, 30)]"

text \<open>Alice's connection after the handshake, and a server on which it is the only one.\<close>

definition alice_socket :: socket where
  "alice_socket = \<lparr>socket_id = 0, handshake = alice_device, data_userId = Some (Num 1)\<rparr>"

definition alice_connected :: server where
  "alice_connected = fresh_server\<lparr>sockets := [alice_socket], next_socket_id := 1\<rparr>"

text \<open>A chat event of alice to bob whose content is plain text, and one that names bob
  as its sender.\<close>

definition plain_chat :: ChatData where
  "plain_chat = \<lparr>data_type = ''chat'', data_senderId = 1, data_receiverId = 2,
                  data_content = ''hello there''\<rparr>"

definition spoofed_chat :: ChatData where
  "spoofed_chat = \<lparr>data_type = ''chat'', data_senderId = 2, data_receiverId = 3,
                    data_content = ''QUJDRA==''\<rparr>"

text \<open>Alice connects from two devices, both join, the first one disconnects.\<close>

definition two_devices :: "(event \<times> int) list" where
  "two_devices =
     [(Connection alice_device, 10), (Connection alice_device, 11),
      (Join 0 1, 20), (Join 1 1, 21), (Disconnect 0, 30)]"

text \<open>The impostor connects and joins as alice.\<close>

definition impostor_joins :: "(event \<times> int) list" where
  "impostor_joins = [(Connection impostor, 10), (Join 0 1, 20)]"

lemmas store_defs =
  empty_storage_def createUser_def getUser_def getUserByUsername_def getAllUsers_def
  updateUserStatus_def banUser_def getMessages_def between_def createMessage_def
  getContacts_def addContact_def jsmap_get_def jsmap_has_def jsmap_delete_def
  jsmap_values_def jsset_add_def jsset_delete_def three_users_def with_contacts_def Let_def

lemmas relay_defs =
  io_use_def join_handler_def
  chat_message_handler_def disconnect_handler_def find_socket_def step_def
  storage_createMessage_def fresh_server_def impostor_def alice_device_def
  alice_socket_def alice_connected_def plain_chat_def spoofed_chat_def two_devices_def
  impostor_joins_def failing_createMessage_def conversation_calls_def spelled_device_def


section \<open>Facts about the containers\<close>

lemma jsmap_get_set: "jsmap_get (jsmap_set m k v) k' = (if k' = k then Some v else jsmap_get m k')"
  by (induction m) (auto simp: jsmap_get_def)

lemma jsmap_keys_set_present:
  "jsmap_get m k \<noteq> None \<Longrightarrow> map fst (jsmap_set m k v) = map fst m"
  by (induction m) (auto simp: jsmap_get_def)

lemma jsmap_set_fresh: "k \<notin> fst ` set m \<Longrightarrow> jsmap_set m k v = m @ [(k, v)]"
  by (induction m) auto




text \<open>\<open>Number_js\<close> on some strings: digits, the other spellings of 1, white space, a
  value beyond \<open>2 ^ 53\<close> that is rounded, and values that are not integers.\<close>

lemma Number_js_1: "Number_js ''1'' = Num 1"
  by code_simp

lemma Number_js_spellings:
  "Number_js ''1e0'' = Num 1" "Number_js '' 1'' = Num 1" "Number_js ''+1'' = Num 1"
  "Number_js ''1.0'' = Num 1" "Number_js ''0x1'' = Num 1" "Number_js '' 1e0'' = Num 1"
  by code_simp+

lemma Number_js_rounds:
  "Number_js ''9007199254740993'' = Num 9007199254740992"
  "Number_js ''9007199254740995'' = Num 9007199254740996"
  "Number_js ''-Infinity'' = NegInfinity"
  by code_simp+

lemma Number_js_other:
  "Number_js ''1.5'' = Frac 3 1" "Number_js ''abc'' = NaN" "Number_js ''1e'' = NaN"
  "Number_js ''-0x1'' = NaN" "Number_js ''  '' = Num 0" "Number_js ''-0'' = Num 0"
  by code_simp+

lemma find_append:
  "find P (xs @ ys) = (case find P xs of None \<Rightarrow> find P ys | Some x \<Rightarrow> Some x)"
  by (induction xs) auto

lemma find_filter_implied: "(\<And>x. P x \<Longrightarrow> Q x) \<Longrightarrow> find P (filter Q xs) = find P xs"
  by (induction xs) auto

lemma find_filter_excluded: "(\<And>x. P x \<Longrightarrow> \<not> Q x) \<Longrightarrow> find P (filter Q xs) = None"
  by (induction xs) auto





section \<open>The directory store: lookups after an update\<close>

lemma updateUserStatus_Inr:
  "updateUserStatus s i st now = Inr (user, s') \<Longrightarrow>
     getUser s i \<noteq> None \<and> status user = st
     \<and> (\<forall>k. getUser s' k = (if k = i then Some user else getUser s k))"
  by (auto simp: updateUserStatus_def getUser_def jsmap_get_set Let_def split: option.splits)

lemma updateUserStatus_Inl: "updateUserStatus s i st now = Inl e \<Longrightarrow> getUser s i = None"
  by (auto simp: updateUserStatus_def Let_def split: option.splits)











lemma createMessage_fresh:
  assumes "messages_fresh s"
  shows "messages (snd (createMessage s m now))
           = messages s @ [(currentMessageId s, fst (createMessage s m now))]"
    and "messages_fresh (snd (createMessage s m now))"
    and "currentMessageId (snd (createMessage s m now)) = currentMessageId s + 1"
proof -
  have "currentMessageId s \<notin> fst ` set (messages s)"
    using assms by (auto simp: messages_fresh_def list_all_iff)
  then show "messages (snd (createMessage s m now))
               = messages s @ [(currentMessageId s, fst (createMessage s m now))]"
    by (simp add: createMessage_def Let_def jsmap_set_fresh)
  then show "messages_fresh (snd (createMessage s m now))"
    using assms by (auto simp: messages_fresh_def list_all_iff createMessage_def Let_def)
  show "currentMessageId (snd (createMessage s m now)) = currentMessageId s + 1"
    by (simp add: createMessage_def Let_def)
qed


lemma messages_fresh_kept:
  "messages_fresh empty_storage"
  "messages_fresh s \<Longrightarrow> messages_fresh (deleteMessage s i)"
  "messages_fresh s \<Longrightarrow> messages_fresh (snd (createUser s p h now))"
  "messages_fresh s \<Longrightarrow> messages_fresh (banUser s i)"
  "messages_fresh s \<Longrightarrow> messages_fresh (addContact s i j)"
  "messages_fresh s \<Longrightarrow> updateUserStatus s i st now = Inr (user, s') \<Longrightarrow> messages_fresh s'"
proof -
  show "messages_fresh empty_storage"
    by (simp add: messages_fresh_def empty_storage_def)
  show "messages_fresh s \<Longrightarrow> messages_fresh (deleteMessage s i)"
    by (simp add: messages_fresh_def deleteMessage_def jsmap_delete_def list_all_iff)
  show "messages_fresh s \<Longrightarrow> messages_fresh (snd (createUser s p h now))"
    by (simp add: messages_fresh_def createUser_def Let_def)
  show "messages_fresh s \<Longrightarrow> messages_fresh (banUser s i)"
    by (simp add: messages_fresh_def banUser_def)
  show "messages_fresh s \<Longrightarrow> messages_fresh (addContact s i j)"
    by (simp add: messages_fresh_def addContact_def Let_def)
  show "messages_fresh s \<Longrightarrow> updateUserStatus s i st now = Inr (user, s') \<Longrightarrow> messages_fresh s'"
    by (cases "getUser s i") (auto simp: messages_fresh_def updateUserStatus_def Let_def)
qed






lemma sorted_consecutive: "sorted (map (\<lambda>n. c + int n) [0 ..< k])"
  by (induction k) (auto simp: sorted_append)

lemma createMessage_call_of: "call_of (fst (createMessage s m now)) = (m, now)"
  by (simp add: createMessage_def call_of_def Let_def)

lemma createMessage_id: "msg_id (fst (createMessage s m now)) = currentMessageId s"
  by (simp add: createMessage_def Let_def)

text \<open>From a store that satisfies the invariant, a run of calls appends the messages it
  returns, in call order, under the consecutive ids from the counter on.\<close>

lemma createMessage_calls_messages:
  "messages_fresh s \<Longrightarrow>
     messages (fst (createMessage_calls s calls))
       = messages s @ map (\<lambda>m. (msg_id m, m)) (snd (createMessage_calls s calls))
     \<and> map call_of (snd (createMessage_calls s calls)) = calls
     \<and> map msg_id (snd (createMessage_calls s calls))
         = map (\<lambda>n. currentMessageId s + int n) [0 ..< length calls]"
proof (induction calls arbitrary: s)
  case Nil
  then show ?case by simp
next
  case (Cons call calls)
  note f = createMessage_fresh [OF Cons.prems, of "fst call" "snd call"]
  note ih = Cons.IH [OF f(2)]
  have "map (\<lambda>n. currentMessageId s + int n) [0 ..< Suc (length calls)]
     = currentMessageId s # map (\<lambda>n. currentMessageId s + 1 + int n) [0 ..< length calls]"
    by (simp add: upt_rec [of 0] map_Suc_upt [symmetric] del: upt_Suc)
  with ih f show ?case
    by (simp add: split_beta Let_def createMessage_call_of createMessage_id del: upt_Suc)
qed


section \<open>The relay: what each handler leaves alone\<close>

lemma io_use_Inr:
  "io_use sock = Inr sock' \<Longrightarrow>
     auth_token (handshake sock) = Some ''session''
     \<and> (\<exists>q. query_userId (handshake sock) = Some q \<and> q \<noteq> []
            \<and> sock' = sock\<lparr>data_userId := Some (Number_js q)\<rparr>)"
  by (auto simp: io_use_def split: if_splits option.splits)

lemma io_use_accepts:
  "auth_token (handshake sock) = Some ''session'' \<Longrightarrow>
   query_userId (handshake sock) = Some claimed \<Longrightarrow> claimed \<noteq> [] \<Longrightarrow>
     io_use sock = Inr (sock\<lparr>data_userId := Some (Number_js claimed)\<rparr>)"
  by (simp add: io_use_def)

lemma join_handler_sockets:
  "sockets (fst (join_handler srv sock userId now)) = sockets srv"
  "next_socket_id (fst (join_handler srv sock userId now)) = next_socket_id srv"
  by (auto simp: join_handler_def Let_def split: sum.splits)

lemma chat_message_handler_sockets:
  "sockets (fst (chat_message_handler create srv sock dat now)) = sockets srv"
  "next_socket_id (fst (chat_message_handler create srv sock dat now)) = next_socket_id srv"
  by (auto simp: chat_message_handler_def split: sum.splits)

lemma disconnect_handler_sockets:
  "sockets (fst (disconnect_handler srv sock now)) = sockets srv"
  "next_socket_id (fst (disconnect_handler srv sock now)) = next_socket_id srv"
  by (auto simp: disconnect_handler_def split: sum.splits option.splits jsnum.splits)

lemma step_next: "next_socket_id srv \<le> next_socket_id (fst (step srv ev now))"
  by (cases ev)
     (auto simp: step_def join_handler_sockets chat_message_handler_sockets
        disconnect_handler_sockets split: sum.splits option.splits)

lemma step_find_socket:
  assumes "find_socket (fst (step srv ev now)) sid = Some c" and "sid < next_socket_id srv"
  shows "find_socket srv sid = Some c"
proof (cases ev)
  case (Connection hs)
  show ?thesis
  proof (cases "io_use \<lparr>socket_id = next_socket_id srv, handshake = hs, data_userId = None\<rparr>")
    case (Inl e)
    with Connection assms show ?thesis by (simp add: step_def find_socket_def)
  next
    case (Inr sock')
    from io_use_Inr [OF Inr] have "socket_id sock' = next_socket_id srv" by auto
    with Inr Connection assms show ?thesis
      by (auto simp: step_def find_socket_def find_append split: option.splits)
  qed
next
  case (Join j userId)
  with assms show ?thesis
    by (auto simp: step_def find_socket_def join_handler_sockets split: option.splits)
next
  case (Chat_message j dat)
  with assms show ?thesis
    by (auto simp: step_def find_socket_def chat_message_handler_sockets split: option.splits)
next
  case (Disconnect j)
  show ?thesis
  proof (cases "find_socket srv j")
    case None
    with Disconnect assms show ?thesis by (simp add: step_def)
  next
    case (Some sock)
    with Disconnect assms have f:
      "find (\<lambda>c. socket_id c = sid) (filter (\<lambda>c. socket_id c \<noteq> j) (sockets srv)) = Some c"
      by (simp add: step_def find_socket_def disconnect_handler_sockets)
    show ?thesis
    proof (cases "sid = j")
      case True
      with f find_filter_excluded [of "\<lambda>c. socket_id c = sid" "\<lambda>c. socket_id c \<noteq> j" "sockets srv"]
      show ?thesis by simp
    next
      case False
      with f find_filter_implied [of "\<lambda>c. socket_id c = sid" "\<lambda>c. socket_id c \<noteq> j" "sockets srv"]
      show ?thesis by (simp add: find_socket_def)
    qed
  qed
qed

lemma run_find_socket:
  "find_socket (fst (run srv evs)) sid = Some c \<Longrightarrow> sid < next_socket_id srv \<Longrightarrow>
     find_socket srv sid = Some c"
proof (induction evs arbitrary: srv)
  case Nil
  then show ?case by simp
next
  case (Cons e es)
  let ?srv1 = "fst (step srv (fst e) (snd e))"
  from Cons.prems(1) have "find_socket (fst (run ?srv1 es)) sid = Some c"
    by (simp add: split_beta Let_def)
  moreover have "sid < next_socket_id ?srv1"
    using Cons.prems(2) step_next [of srv "fst e" "snd e"] by simp
  ultimately have "find_socket ?srv1 sid = Some c"
    by (rule Cons.IH)
  then show ?case
    using Cons.prems(2) by (rule step_find_socket)
qed

lemma join_handler_status:
  "map_option status (getUser (storage (fst (join_handler srv sock userId now))) u)
     = (if data_userId sock = Some (Num userId) \<and> u = userId \<and> getUser (storage srv) u \<noteq> None
        then Some ''online'' else map_option status (getUser (storage srv) u))"
proof (cases "updateUserStatus (storage srv) userId ''online'' now")
  case (Inl e)
  with updateUserStatus_Inl [OF Inl] show ?thesis
    by (auto simp: join_handler_def Let_def)
next
  case (Inr r)
  obtain user st where r: "r = (user, st)" by (cases r)
  from updateUserStatus_Inr [OF Inr [unfolded r]] Inr r show ?thesis
    by (simp add: join_handler_def Let_def)
qed

lemma disconnect_handler_status:
  "map_option status (getUser (storage (fst (disconnect_handler srv sock now))) u)
     = (if data_userId sock = Some (Num u) \<and> u \<noteq> 0 \<and> getUser (storage srv) u \<noteq> None
        then Some ''offline'' else map_option status (getUser (storage srv) u))"
proof (cases "data_userId sock")
  case None
  then show ?thesis by (simp add: disconnect_handler_def)
next
  case (Some n)
  show ?thesis
  proof (cases n)
    case NaN
    with Some show ?thesis by (simp add: disconnect_handler_def)
  next
    case (Frac m k)
    with Some show ?thesis by (simp add: disconnect_handler_def)
  next
    case PosInfinity
    with Some show ?thesis by (simp add: disconnect_handler_def)
  next
    case NegInfinity
    with Some show ?thesis by (simp add: disconnect_handler_def)
  next
    case (Num userId)
    show ?thesis
    proof (cases "updateUserStatus (storage srv) userId ''offline'' now")
      case (Inl e)
      with updateUserStatus_Inl [OF Inl] Some Num show ?thesis
        by (auto simp: disconnect_handler_def)
    next
      case (Inr r)
      obtain user st where r: "r = (user, st)" by (cases r)
      from updateUserStatus_Inr [OF Inr [unfolded r]] Inr r Some Num show ?thesis
        by (simp add: disconnect_handler_def)
    qed
  qed
qed

lemma chat_message_handler_users:
  "users (storage (fst (chat_message_handler storage_createMessage srv sock dat now)))
     = users (storage srv)"
  by (simp add: chat_message_handler_def storage_createMessage_def createMessage_def Let_def)

lemma step_status_change:
  assumes "map_option status (getUser (storage (fst (step srv ev now))) u)
             \<noteq> map_option status (getUser (storage srv) u)"
  shows "\<exists>sid c. find_socket srv sid = Some c \<and> data_userId c = Some (Num u)
           \<and> ((ev = Join sid u
                \<and> map_option status (getUser (storage (fst (step srv ev now))) u) = Some ''online'')
              \<or> (ev = Disconnect sid
                \<and> map_option status (getUser (storage (fst (step srv ev now))) u) = Some ''offline''))"
proof (cases ev)
  case (Connection hs)
  with assms show ?thesis
    by (auto simp: step_def split: sum.splits)
next
  case (Join sid userId)
  show ?thesis
  proof (cases "find_socket srv sid")
    case None
    with Join assms show ?thesis by (simp add: step_def)
  next
    case (Some sock)
    with Join assms show ?thesis
      by (auto simp: step_def join_handler_status split: if_splits)
  qed
next
  case (Chat_message sid dat)
  with assms show ?thesis
    by (auto simp: step_def getUser_def chat_message_handler_users split: option.splits)
next
  case (Disconnect sid)
  show ?thesis
  proof (cases "find_socket srv sid")
    case None
    with Disconnect assms show ?thesis by (simp add: step_def)
  next
    case (Some sock)
    with Disconnect assms show ?thesis
      by (auto simp: step_def disconnect_handler_status split: if_splits)
  qed
qed


section \<open>The claims\<close>

text \<open>
  C1, as the code has it. A connection is bound at the handshake, and to the userId the
  client claims there: the middleware accepts exactly when the auth marker is the string
  \<open>session\<close> and a non-empty userId is supplied, and binds the connection to the number
  that userId denotes; no login session is consulted. A join whose userId is not the bound
  one changes nothing and is answered with an error on that connection. Whatever events
  follow, a connection that is still connected has the record, and so the bound userId,
  it had before.
\<close>

theorem binding_fixed_by_handshake:
  "(io_use sock = Inr sock' \<longrightarrow>
      auth_token (handshake sock) = Some ''session''
      \<and> (\<exists>q. query_userId (handshake sock) = Some q \<and> q \<noteq> []
             \<and> sock' = sock\<lparr>data_userId := Some (Number_js q)\<rparr>))
   \<and> (auth_token (handshake sock) = Some ''session''
        \<and> query_userId (handshake sock) = Some claimed \<and> claimed \<noteq> [] \<longrightarrow>
        io_use sock = Inr (sock\<lparr>data_userId := Some (Number_js claimed)\<rparr>))
   \<and> (data_userId c \<noteq> Some (Num u) \<longrightarrow>
        join_handler srv c u now =
          (srv, [Socket_emit (socket_id c) (Error_message ''Invalid user ID'')]))
   \<and> (find_socket (fst (run srv evs)) sid = Some c' \<and> sid < next_socket_id srv \<longrightarrow>
        find_socket srv sid = Some c')"
proof -
  have j: "join_handler srv c u now =
      (srv, [Socket_emit (socket_id c) (Error_message ''Invalid user ID'')])"
    if "data_userId c \<noteq> Some (Num u)"
    using that by (simp add: join_handler_def)
  show ?thesis
    using io_use_Inr [of sock sock'] io_use_accepts [of sock claimed] j
      run_find_socket [of srv evs sid c']
    by blast
qed

text \<open>Alice's handshake is accepted and binds her connection to 1, also when her id is
  spelled \<open>1e0\<close> after a blank; her join as 2 is refused; after three more events her
  connection is bound as before.\<close>

theorem binding_fixed_by_handshake_witness:
  "io_use \<lparr>socket_id = 0, handshake = alice_device, data_userId = None\<rparr> = Inr alice_socket
   \<and> io_use \<lparr>socket_id = 5, handshake = spelled_device, data_userId = None\<rparr>
       = Inr \<lparr>socket_id = 5, handshake = spelled_device, data_userId = Some (Num 1)\<rparr>
   \<and> data_userId alice_socket \<noteq> Some (Num 2)
   \<and> join_handler alice_connected alice_socket 2 40 =
       (alice_connected, [Socket_emit 0 (Error_message ''Invalid user ID'')])
   \<and> find_socket (fst (run alice_connected
         [(Join 0 2, 40), (Chat_message 0 spoofed_chat, 50), (Join 0 1, 60)])) 0 = Some alice_socket
   \<and> 0 < next_socket_id alice_connected
   \<and> find_socket alice_connected 0 = Some alice_socket"
proof -
  have h1: "io_use \<lparr>socket_id = 0, handshake = alice_device, data_userId = None\<rparr> = Inr alice_socket"
    by (simp add: relay_defs Number_js_1)
  have h2: "data_userId alice_socket \<noteq> Some (Num 2) \<and> socket_id alice_socket = 0"
    by (simp add: relay_defs Number_js_1)
  have h3: "find_socket (fst (run alice_connected
         [(Join 0 2, 40), (Chat_message 0 spoofed_chat, 50), (Join 0 1, 60)])) 0 = Some alice_socket
       \<and> 0 < next_socket_id alice_connected"
    by (simp add: relay_defs Number_js_1 store_defs)
  have h4: "Number_js '' 1e0'' = Num 1"
    by (simp add: Number_js_spellings)
  have i2: "io_use \<lparr>socket_id = 5, handshake = spelled_device, data_userId = None\<rparr>
      = Inr (\<lparr>socket_id = 5, handshake = spelled_device, data_userId = None\<rparr>
               \<lparr>data_userId := Some (Number_js '' 1e0'')\<rparr>)"
    by (rule binding_fixed_by_handshake [THEN conjunct2, THEN conjunct1, THEN mp])
       (simp add: spelled_device_def)
  show ?thesis
    using h1 h2 h3 h4 i2
      binding_fixed_by_handshake [where sock = "\<lparr>socket_id = 0, handshake = alice_device,
          data_userId = None\<rparr>" and sock' = alice_socket and c = alice_socket and u = 2
          and srv = alice_connected and now = 40 and sid = 0 and c' = alice_socket
          and evs = "[(Join 0 2, 40), (Chat_message 0 spoofed_chat, 50), (Join 0 1, 60)]"
          and claimed = "''1''"]
    by simp
qed

text \<open>A client whose login session is bob's (2) claims userId 1 at the handshake: the
  connection is accepted and bound to 1, and its join as 1 is honoured, with the room of
  user 1 entered and the change of status broadcast.\<close>

theorem binding_not_session_counterexample:
  "session_user impostor = Some 2
   \<and> map data_userId (sockets (fst (run fresh_server impostor_joins))) = [Some (Num 1)]
   \<and> map session_user (map handshake (sockets (fst (run fresh_server impostor_joins))))
       = [Some 2]
   \<and> rooms (fst (run fresh_server impostor_joins)) = [(0, User_room 1)]
   \<and> map_option status (getUser (storage (fst (run fresh_server impostor_joins))) 1)
       = Some ''online''
   \<and> snd (run fresh_server impostor_joins) = [Io_emit (User_status_changed 1 ''online'')]"
  by (simp add: relay_defs Number_js_1 store_defs)

text \<open>
  C2. A chat_message event whose declared senderId is not the userId the connection is
  bound to is answered with the error "Unauthorized message sender" on that connection
  alone, and the server state, the message store included, is as it was. This holds
  whatever the store's createMessage would have done.
\<close>

theorem unauthorized_sender_rejected:
  assumes "data_userId sock \<noteq> Some (Num (data_senderId dat))"
  shows "chat_message_handler create srv sock dat now =
           (srv, [Socket_emit (socket_id sock) (Error_message ''Unauthorized message sender'')])"
  using assms by (simp add: chat_message_handler_def)

theorem unauthorized_sender_rejected_witness:
  "data_userId alice_socket \<noteq> Some (Num (data_senderId spoofed_chat))
   \<and> chat_message_handler storage_createMessage alice_connected alice_socket spoofed_chat 40 =
       (alice_connected, [Socket_emit 0 (Error_message ''Unauthorized message sender'')])
   \<and> messages (storage alice_connected) = []"
proof -
  have h: "data_userId alice_socket \<noteq> Some (Num (data_senderId spoofed_chat))"
    by (simp add: relay_defs Number_js_1)
  have e: "socket_id alice_socket = 0 \<and> messages (storage alice_connected) = []"
    by (simp add: relay_defs Number_js_1 store_defs)
  show ?thesis
    using h e unauthorized_sender_rejected [OF h, of storage_createMessage alice_connected 40]
    by simp
qed

text \<open>
  C3, as the code has it. Among the events of the relay, a user's stored status changes
  only through a validated join of a connection bound to that user, which sets it to
  online, and through the end of a connection bound to that user, which sets it to
  offline. Each such join and each such disconnect does so, for a user the store knows
  (and, for the disconnect, an id other than 0): the status is not counted over the
  user's connections, so neither "first" nor "last" connection plays a part.
\<close>

theorem status_follows_each_join_and_disconnect:
  "(data_userId sock = Some (Num u) \<and> getUser (storage srv) u \<noteq> None \<longrightarrow>
      map_option status (getUser (storage (fst (join_handler srv sock u now))) u) = Some ''online'')
   \<and> (data_userId sock = Some (Num u) \<and> u \<noteq> 0 \<and> getUser (storage srv) u \<noteq> None \<longrightarrow>
      map_option status (getUser (storage (fst (disconnect_handler srv sock now))) u)
        = Some ''offline'')
   \<and> (map_option status (getUser (storage (fst (step srv ev now))) u)
         \<noteq> map_option status (getUser (storage srv) u) \<longrightarrow>
       (\<exists>sid c. find_socket srv sid = Some c \<and> data_userId c = Some (Num u)
           \<and> ((ev = Join sid u
                \<and> map_option status (getUser (storage (fst (step srv ev now))) u) = Some ''online'')
              \<or> (ev = Disconnect sid
                \<and> map_option status (getUser (storage (fst (step srv ev now))) u)
                    = Some ''offline''))))"
  using step_status_change [of srv ev now u]
  by (simp add: join_handler_status disconnect_handler_status)

theorem status_follows_each_join_and_disconnect_witness:
  "data_userId alice_socket = Some (Num 1) \<and> (1::int) \<noteq> 0
   \<and> getUser (storage alice_connected) 1 \<noteq> None
   \<and> map_option status (getUser (storage (fst (join_handler alice_connected alice_socket 1 40))) 1)
       = Some ''online''
   \<and> map_option status (getUser (storage (fst (disconnect_handler alice_connected alice_socket 50))) 1)
       = Some ''offline''
   \<and> map_option status (getUser (storage (fst (step alice_connected (Join 0 1) 40))) 1)
       \<noteq> map_option status (getUser (storage alice_connected) 1)
   \<and> find_socket alice_connected 0 = Some alice_socket"
proof -
  have h1: "data_userId alice_socket = Some (Num 1) \<and> getUser (storage alice_connected) 1 \<noteq> None"
    by (simp add: relay_defs Number_js_1 store_defs)
  have h2: "map_option status (getUser (storage (fst (step alice_connected (Join 0 1) 40))) 1)
       \<noteq> map_option status (getUser (storage alice_connected) 1)
     \<and> find_socket alice_connected 0 = Some alice_socket"
    by (simp add: relay_defs Number_js_1 store_defs)
  show ?thesis
    using h1 h2
      status_follows_each_join_and_disconnect [where sock = alice_socket and u = 1
        and srv = alice_connected and now = 40 and ev = "Join 0 1"]
      status_follows_each_join_and_disconnect [where sock = alice_socket and u = 1
        and srv = alice_connected and now = 50 and ev = "Join 0 1"]
    by simp
qed

text \<open>Alice holds two connections, both joined, and the first disconnects: her second
  connection is still connected and in her room, and her status is offline.\<close>

theorem status_two_connections_counterexample:
  "map socket_id (sockets (fst (run fresh_server two_devices))) = [1]
   \<and> map data_userId (sockets (fst (run fresh_server two_devices))) = [Some (Num 1)]
   \<and> rooms (fst (run fresh_server two_devices)) = [(1, User_room 1)]
   \<and> map_option status (getUser (storage (fst (run fresh_server two_devices))) 1)
       = Some ''offline''"
  by (simp add: relay_defs Number_js_1 store_defs)

text \<open>
  C4, as the code has it. The duplicate check is made by the registration route, not by
  the store: in every store state in which the username is present, POST /api/register
  with that username answers 400 "Username already exists" and leaves the store as it
  was. The store operation createUser makes no check and has no failing path: it returns
  a record with the given username under the next id and stores it.
\<close>

theorem register_rejects_duplicate:
  assumes "getUserByUsername s (ins_username p) = Some existingUser"
  shows "api_register s (Some p) hashedPassword now =
           (Status_json 400 (Message_json ''Username already exists''), s)
         \<and> getUser (snd (createUser s p hashedPassword now)) (currentId s)
             = Some (fst (createUser s p hashedPassword now))
         \<and> username (fst (createUser s p hashedPassword now)) = ins_username p
         \<and> user_id (fst (createUser s p hashedPassword now)) = currentId s
         \<and> currentId (snd (createUser s p hashedPassword now)) = currentId s + 1"
  using assms by (simp add: api_register_def createUser_def getUser_def jsmap_get_set Let_def)

theorem register_rejects_duplicate_witness:
  "getUserByUsername three_users ''bob'' \<noteq> None
   \<and> api_register three_users (Some \<lparr>ins_username = ''bob'', ins_password = ''other''\<rparr>) ''h4'' 4000
       = (Status_json 400 (Message_json ''Username already exists''), three_users)"
proof -
  have h: "getUserByUsername three_users
             (ins_username \<lparr>ins_username = ''bob'', ins_password = ''other''\<rparr>)
     = Some \<lparr>user_id = 2, username = ''bob'', password = ''h2'', isAdmin = False,
              status = ''offline'', publicKey = None, lastSeen = 2000\<rparr>"
    by (simp add: store_defs)
  show ?thesis
    using h register_rejects_duplicate [OF h, of "''h4''" 4000] by simp
qed

text \<open>In a store that holds a user bob, createUser with the username bob returns a
  user with id 4, and the store then holds two records of that name.\<close>

theorem createUser_duplicate_counterexample:
  "getUserByUsername three_users ''bob'' \<noteq> None
   \<and> user_id (fst (createUser three_users
        \<lparr>ins_username = ''bob'', ins_password = ''other''\<rparr> ''h4'' 4000)) = 4
   \<and> map username (getAllUsers (snd (createUser three_users
        \<lparr>ins_username = ''bob'', ins_password = ''other''\<rparr> ''h4'' 4000)))
       = [''alice'', ''bob'', ''carol'', ''bob'']"
  by (simp add: store_defs)

text \<open>
  C5, as the code has it. Take a store in which every message id is below the counter (as
  in every state the store's operations lead to) and make any sequence of createMessage
  calls, between any users. Then getMessages(A,B) returns what it returned before,
  followed by exactly the messages that the calls between A and B returned, in either
  direction, in the order of the calls; the returned messages carry the fields and clock
  readings of their calls, and distinct ids. So from a store with no message between A
  and B the result is those messages and no others, in the order of their creation, which
  is ascending message id. getMessages does not sort: the result is in ascending
  timestamp order when the clock readings of the calls do not decrease.
\<close>

theorem getMessages_roundtrip:
  assumes "messages_fresh s"
  shows "getMessages (fst (createMessage_calls s calls)) a b
           = getMessages s a b @ filter (between a b) (snd (createMessage_calls s calls))
       \<and> map call_of (snd (createMessage_calls s calls)) = calls
       \<and> distinct (map msg_id (snd (createMessage_calls s calls)))
       \<and> (getMessages s a b = [] \<longrightarrow>
            getMessages (fst (createMessage_calls s calls)) a b
              = filter (between a b) (snd (createMessage_calls s calls))
            \<and> sorted (map msg_id (getMessages (fst (createMessage_calls s calls)) a b)))
       \<and> (getMessages s a b = [] \<and> sorted (map snd calls) \<longrightarrow>
            sorted (map timestamp (getMessages (fst (createMessage_calls s calls)) a b)))"
proof -
  let ?created = "snd (createMessage_calls s calls)"
  note m = createMessage_calls_messages [OF assms, of calls]
  have g: "getMessages (fst (createMessage_calls s calls)) a b
             = getMessages s a b @ filter (between a b) ?created"
    using m by (simp add: getMessages_def jsmap_values_def o_def)
  have d: "distinct (map msg_id ?created)"
    using m by (simp add: distinct_map inj_on_def)
  have "sorted (map msg_id ?created)"
    using m sorted_consecutive [of "currentMessageId s" "length calls"] by simp
  then have i: "sorted (map msg_id (filter (between a b) ?created))"
    by (rule sorted_filter)
  have t: "map timestamp ?created = map snd calls"
  proof -
    have "map snd (map call_of ?created) = map snd calls"
      using m by simp
    then show ?thesis by (simp add: o_def call_of_def)
  qed
  have "sorted (map timestamp (filter (between a b) ?created))" if "sorted (map snd calls)"
    using that t sorted_filter [of timestamp ?created "between a b"] by simp
  with g d i m show ?thesis by simp
qed

text \<open>Of three calls on the empty store, the first and the third are between alice and
  bob; getMessages(1,2) returns the messages 1 and 3, in that order.\<close>

theorem getMessages_roundtrip_witness:
  "messages_fresh empty_storage \<and> getMessages empty_storage 1 2 = []
   \<and> sorted (map snd conversation_calls)
   \<and> map msg_id (getMessages (fst (createMessage_calls empty_storage conversation_calls)) 1 2)
       = [1, 3]
   \<and> sorted (map msg_id
        (getMessages (fst (createMessage_calls empty_storage conversation_calls)) 1 2))
   \<and> map content (getMessages (fst (createMessage_calls empty_storage conversation_calls)) 1 2)
       = [''QUJDRA=='', ''Qg=='']
   \<and> sorted (map timestamp
        (getMessages (fst (createMessage_calls empty_storage conversation_calls)) 1 2))"
proof -
  have h1: "messages_fresh empty_storage"
    by (simp add: messages_fresh_def empty_storage_def)
  have h2: "getMessages empty_storage 1 2 = []"
    by (simp add: store_defs)
  have h3: "sorted (map snd conversation_calls)"
    by (simp add: conversation_calls_def)
  have e: "map msg_id (getMessages (fst (createMessage_calls empty_storage conversation_calls)) 1 2)
       = [1, 3]
     \<and> map content (getMessages (fst (createMessage_calls empty_storage conversation_calls)) 1 2)
       = [''QUJDRA=='', ''Qg=='']"
    by (simp add: store_defs conversation_calls_def)
  show ?thesis
    using h1 h2 h3 e getMessages_roundtrip [OF h1, of conversation_calls 1 2] by blast
qed

text \<open>Two calls between alice and bob on the empty store, the clock reading 10 at the
  first and 5 at the second: getMessages(1,2) returns both messages, in the order of the
  calls, and their timestamps do not ascend.\<close>

theorem getMessages_order_counterexample:
  "map msg_id (getMessages (fst (createMessage_calls empty_storage clock_set_back)) 1 2) = [1, 2]
   \<and> map timestamp (getMessages (fst (createMessage_calls empty_storage clock_set_back)) 1 2)
       = [10, 5]
   \<and> \<not> sorted (map timestamp
         (getMessages (fst (createMessage_calls empty_storage clock_set_back)) 1 2))"
  by (simp add: store_defs clock_set_back_def)

text \<open>
  C6. When the persistence step of a chat_message event fails, the server state, the
  message store included, is as it was, and the only thing sent is one error to the
  originating connection ("Failed to save message" when the sender check had passed):
  no new_message is emitted.
\<close>

theorem persistence_failure_reported:
  assumes "create (storage srv)
             \<lparr>ins_senderId = data_senderId dat, ins_receiverId = data_receiverId dat,
              ins_content = data_content dat\<rparr> now = Inl e"
  shows "fst (chat_message_handler create srv sock dat now) = srv
       \<and> snd (chat_message_handler create srv sock dat now) =
           [Socket_emit (socket_id sock)
              (Error_message (if data_userId sock = Some (Num (data_senderId dat))
                              then ''Failed to save message''
                              else ''Unauthorized message sender''))]"
  using assms by (simp add: chat_message_handler_def)

theorem persistence_failure_reported_witness:
  "failing_createMessage (storage alice_connected)
       \<lparr>ins_senderId = data_senderId plain_chat, ins_receiverId = data_receiverId plain_chat,
        ins_content = data_content plain_chat\<rparr> 40 = Inl (Error ''store unavailable'')
   \<and> chat_message_handler failing_createMessage alice_connected alice_socket plain_chat 40
       = (alice_connected, [Socket_emit 0 (Error_message ''Failed to save message'')])"
proof -
  have h: "failing_createMessage (storage alice_connected)
       \<lparr>ins_senderId = data_senderId plain_chat, ins_receiverId = data_receiverId plain_chat,
        ins_content = data_content plain_chat\<rparr> 40 = Inl (Error ''store unavailable'')"
    by (simp add: failing_createMessage_def)
  have e: "socket_id alice_socket = 0
     \<and> data_userId alice_socket = Some (Num (data_senderId plain_chat))"
    by (simp add: relay_defs Number_js_1)
  show ?thesis
    using h e
      persistence_failure_reported [where create = failing_createMessage
        and srv = alice_connected and dat = plain_chat and now = 40
        and e = "Error ''store unavailable''" and sock = alice_socket]
    by (simp add: prod_eq_iff)
qed




text \<open>
  C8. In handleWebSocketMessage a chat event whose content does not match the loose
  format is answered with one error on the connection and the store is as it was. In the
  chat_message handler of the socket path the content is not looked at: an event whose
  sender is the bound user is stored, with its content as it came, and delivered.
\<close>

theorem content_checked_in_websocket_path_only:
  "(data_type dat = ''chat'' \<and> \<not> matches_encoded (data_content dat) \<longrightarrow>
      fst (handleWebSocketMessage create s (Some dat) now) = s
      \<and> (\<exists>msg. snd (handleWebSocketMessage create s (Some dat) now) = [Ws_send_error msg]))
   \<and> (data_userId sock = Some (Num (data_senderId dat)) \<longrightarrow>
        (\<exists>saved. chat_message_handler storage_createMessage srv sock dat now =
           (srv\<lparr>storage := snd (createMessage (storage srv)
                  \<lparr>ins_senderId = data_senderId dat, ins_receiverId = data_receiverId dat,
                   ins_content = data_content dat\<rparr> now)\<rparr>,
            [Io_to_emit [User_room (data_senderId dat), User_room (data_receiverId dat)]
               (New_message saved)])
         \<and> content saved = data_content dat
         \<and> jsmap_get (messages (storage
                (fst (chat_message_handler storage_createMessage srv sock dat now))))
              (currentMessageId (storage srv)) = Some saved))"
  by (simp add: handleWebSocketMessage_def chat_message_handler_def storage_createMessage_def
      createMessage_def Let_def jsmap_get_set)

text \<open>The content "hello there" has a space in it. The websocket path answers "Message
  must be encrypted" and stores nothing; the socket path stores it.\<close>

theorem content_checked_in_websocket_path_only_witness:
  "data_type plain_chat = ''chat'' \<and> \<not> matches_encoded (data_content plain_chat)
   \<and> data_userId alice_socket = Some (Num (data_senderId plain_chat))
   \<and> handleWebSocketMessage storage_createMessage three_users (Some plain_chat) 40
       = (three_users, [Ws_send_error ''Message must be encrypted''])
   \<and> map content (getMessages (storage (fst (chat_message_handler storage_createMessage
         alice_connected alice_socket plain_chat 40))) 1 2) = [''hello there'']"
proof -
  have h: "data_type plain_chat = ''chat'' \<and> \<not> matches_encoded (data_content plain_chat)
     \<and> data_userId alice_socket = Some (Num (data_senderId plain_chat))"
    by (simp add: relay_defs Number_js_1 matches_encoded_def encoded_char_def)
  have e: "handleWebSocketMessage storage_createMessage three_users (Some plain_chat) 40
       = (three_users, [Ws_send_error ''Message must be encrypted''])
     \<and> map content (getMessages (storage (fst (chat_message_handler storage_createMessage
         alice_connected alice_socket plain_chat 40))) 1 2) = [''hello there'']"
    by (simp add: handleWebSocketMessage_def relay_defs store_defs matches_encoded_def
        encoded_char_def)
  show ?thesis
    using h e
      content_checked_in_websocket_path_only [of plain_chat storage_createMessage three_users 40
        alice_socket alice_connected]
    by blast
qed

text \<open>
  C9. \<open>getMessages\<close> is symmetric in its two arguments: in every store state, the
  conversation of A with B is the same sequence of messages as that of B with A.
\<close>

theorem getMessages_symmetric: "getMessages s a b = getMessages s b a"
proof -
  have "between a b = between b a"
    by (rule ext) (auto simp: between_def)
  then show ?thesis
    by (simp add: getMessages_def)
qed

text \<open>
  C10. For a user the store holds, updateUserStatus succeeds and returns the record with
  the new status and the clock reading as lastSeen; id, username, password, isAdmin flag
  and publicKey are those of the old record. The record is stored under the same id, the
  ids of the user map and their order are as before, every other id resolves to the
  record it resolved to, and contacts, messages and both counters are unchanged.
\<close>

theorem updateUserStatus_frame:
  assumes "getUser s i = Some user"
  shows "\<exists>user' s'. updateUserStatus s i st now = Inr (user', s')
     \<and> user' = user\<lparr>status := st, lastSeen := now\<rparr>
     \<and> getUser s' i = Some user'
     \<and> user_id user' = user_id user \<and> username user' = username user
     \<and> password user' = password user \<and> isAdmin user' = isAdmin user
     \<and> publicKey user' = publicKey user
     \<and> (\<forall>k. k \<noteq> i \<longrightarrow> getUser s' k = getUser s k)
     \<and> map fst (users s') = map fst (users s)
     \<and> contacts s' = contacts s \<and> messages s' = messages s
     \<and> currentId s' = currentId s \<and> currentMessageId s' = currentMessageId s"
  using assms
  by (simp add: updateUserStatus_def getUser_def jsmap_get_set jsmap_keys_set_present Let_def)

theorem updateUserStatus_frame_witness:
  "getUser three_users 2 \<noteq> None
   \<and> \<not> isl (updateUserStatus three_users 2 ''online'' 5000)
   \<and> fst (projr (updateUserStatus three_users 2 ''online'' 5000))
       = \<lparr>user_id = 2, username = ''bob'', password = ''h2'', isAdmin = False,
          status = ''online'', publicKey = None, lastSeen = 5000\<rparr>
   \<and> getUser (snd (projr (updateUserStatus three_users 2 ''online'' 5000))) 1
       = getUser three_users 1
   \<and> contacts (snd (projr (updateUserStatus three_users 2 ''online'' 5000)))
       = contacts three_users"
proof -
  have h: "getUser three_users 2
     = Some \<lparr>user_id = 2, username = ''bob'', password = ''h2'', isAdmin = False,
              status = ''offline'', publicKey = None, lastSeen = 2000\<rparr>"
    by (simp add: store_defs)
  show ?thesis
    using h updateUserStatus_frame [OF h, of "''online''" 5000] by auto
qed

end
